theory Spec2Isabelle
  imports Main
begin

section \<open>The command line front end of olm (src/olm/__init__.py)\<close>

text \<open>
  The module \<open>olm/__init__.py\<close> holds \<open>abort\<close> and \<open>main\<close>. \<open>main\<close> builds an
  argparse parser with four subcommands, parses the command line, checks the outbreak
  name against the registry \<open>OUTBREAKS\<close> and dispatches on the subcommand.

  The embedding starts from the namespace that \<open>parser.parse_args()\<close> returns. What the
  program does to the outside world is recorded as a list of events, in the order in
  which the calls are made; how the process ends is a value of type \<open>ending\<close>.
\<close>

subsection \<open>Strings\<close>

text \<open>The escape character written \<^verbatim>\<open>\033\<close> in the source.\<close>

definition esc :: char where
  "esc = CHR 0x1B"

definition newline :: char where
  "newline = CHR 0x0A"

text \<open>\<^verbatim>\<open>sep.join(xs)\<close> of Python.\<close>

fun join :: "string \<Rightarrow> string list \<Rightarrow> string" where
  "join sep [] = []"
| "join sep [x] = x"
| "join sep (x # y # ys) = x @ sep @ join sep (y # ys)"

text \<open>
  \<^verbatim>\<open>s.split(c)\<close> of Python for a separator of one character: the string is cut at
  every occurrence of the separator, empty pieces are kept, and the empty string gives
  one empty piece.
\<close>

fun split :: "char \<Rightarrow> string \<Rightarrow> string list" where
  "split c [] = [[]]"
| "split c (x # xs) =
     (if x = c then [] # split c xs
      else (x # hd (split c xs)) # tl (split c xs))"

text \<open>The format specification \<^verbatim>\<open>{s:12s}\<close>: left aligned, padded with spaces, never cut.\<close>

definition ljust :: "nat \<Rightarrow> string \<Rightarrow> string" where
  "ljust n s = s @ replicate (n - length s) CHR '' ''"

text \<open>\<^verbatim>\<open>f"\033[1m{s}\033[0m"\<close>\<close>

definition bold :: "string \<Rightarrow> string" where
  "bold s = esc # ''[1m'' @ s @ esc # ''[0m''"

definition USAGE :: string where
  "USAGE = concat (map (\<lambda>l. l @ [newline])
     [''olm: Office for Linelist Management'',
      '''',
      ''olm is a tool to operate on linelists provided from Global.health (G.h).'',
      ''Linelists are epidemiological datasets with information about a disease'',
      ''outbreak organised into one row per case. Currently it supports'',
      ''generating briefing reports, fetching linelists and checking linelists'',
      ''against a provided schema.'',
      '''',
      ''olm is organised into subcommands:'',
      '''',
      ''list        lists G.h outbreaks that olm supports'',
      ''get         saves linelist data to disk'',
      ''report      generates briefing report for an outbreak'',
      ''lint        lints (checks) an outbreak linelist for errors''])"

subsection \<open>The parsed command line\<close>

text \<open>
  The parser of \<open>main\<close> has the subparsers \<open>lint\<close> (outbreak, \<open>--data\<close>, \<open>--schema\<close>,
  \<open>--ignore\<close>), \<open>get\<close> (outbreak), \<open>list\<close> (no argument) and \<open>report\<close> (outbreak,
  \<open>--data\<close>, \<open>--bucket\<close>, \<open>--cloudfront\<close>, \<open>--open\<close>), with \<open>dest="command"\<close>. An option
  that is not given is \<open>None\<close>; \<open>--open\<close> is a flag. The subparsers are not required, so
  a command line without a subcommand parses to a namespace whose \<open>command\<close> is \<open>None\<close>.
  A namespace holds the arguments of the chosen subparser only.
\<close>

datatype args =
    NoCommand
  | ListCmd
  | GetCmd string
  | LintCmd string "string option" "string option" "string option"
  | ReportCmd string "string option" "string option" "string option" bool

text \<open>\<open>args.command\<close>\<close>

fun command :: "args \<Rightarrow> string option" where
  "command NoCommand = None"
| "command ListCmd = Some ''list''"
| "command (GetCmd ob) = Some ''get''"
| "command (LintCmd ob d s i) = Some ''lint''"
| "command (ReportCmd ob d b c opn) = Some ''report''"

text \<open>
  \<open>args.outbreak\<close>: \<open>None\<close> stands for a namespace without this attribute, where the
  access raises \<open>AttributeError\<close>.
\<close>

fun outbreak :: "args \<Rightarrow> string option" where
  "outbreak NoCommand = None"
| "outbreak ListCmd = None"
| "outbreak (GetCmd ob) = Some ob"
| "outbreak (LintCmd ob d s i) = Some ob"
| "outbreak (ReportCmd ob d b c opn) = Some ob"

subsection \<open>The registry of outbreaks\<close>

text \<open>
  \<open>OUTBREAKS\<close> is imported from \<open>olm/outbreaks.py\<close> and is a parameter here: a dict from
  outbreak name to a dict of settings, of which \<open>main\<close> reads \<open>description\<close>, \<open>id\<close> and
  \<open>url\<close>. Both are kept as association lists, so that iteration follows insertion
  order; a lookup of a missing key raises \<open>KeyError\<close>.
\<close>

type_synonym info = "(string \<times> string) list"

type_synonym registry = "(string \<times> info) list"

definition keys :: "('k \<times> 'v) list \<Rightarrow> 'k list" where
  "keys d = map fst d"

subsection \<open>Results of linting\<close>

text \<open>
  The object that \<open>lint\<close> returns. \<open>main\<close> reads its attribute \<open>ok\<close> and prints it; the
  attributes are those of the Validation Result and the Violation of the data model.
\<close>

datatype violation_kind =
    MissingRequiredField
  | TypeMismatch
  | OutOfRange
  | InvalidEnumValue
  | UnknownField
  | MissingColumn

record violation =
  row_index :: "nat option"
  field_name :: string
  kind :: violation_kind
  message :: string
  raw_value :: "string option"

record validation_result =
  ok :: bool
  violations :: "violation list"

subsection \<open>Events, exceptions and the environment\<close>

datatype exn =
    AttributeError
  | KeyError
  | Failure string

datatype ending =
    Returned
  | SysExit nat
  | Raised exn

text \<open>
  The exit status of the process: 0 when \<open>main\<close> returns, the argument of \<open>sys.exit\<close>,
  and 1 when an exception reaches the top level.
\<close>

fun exit_status :: "ending \<Rightarrow> nat" where
  "exit_status Returned = 0"
| "exit_status (SysExit n) = n"
| "exit_status (Raised e) = 1"

record response =
  status_code :: int
  res_text :: string

datatype event =
    MsgOk string string
  | MsgFail string string
  | Print string
  | PrintResult validation_result
  | RequestsGet string
  | WriteText string string
  | CallLint string "string option" "string option" "string list"
  | CallMakeReport string string info "string option" "string option"
  | WebbrowserOpen string

text \<open>
  The collaborators of \<open>main\<close>: the registry, \<open>requests.get\<close>, \<open>lint\<close>, \<open>make_report\<close>,
  \<open>Path.exists\<close> and the rendering of \<open>Path.cwd() / name\<close>. A collaborator that fails
  raises, which is the \<open>Inl\<close> side of its result. \<open>msg_ok\<close>, \<open>msg_fail\<close> (from
  \<open>olm/util.py\<close>), \<open>print\<close> and \<open>Path.write_text\<close> are recorded as events.
\<close>

record env =
  OUTBREAKS :: registry
  requests_get :: "string \<Rightarrow> exn + response"
  lint :: "string \<Rightarrow> string option \<Rightarrow> string option \<Rightarrow> string list \<Rightarrow> exn + validation_result"
  make_report :: "string \<Rightarrow> string \<Rightarrow> info \<Rightarrow> string option \<Rightarrow> string option \<Rightarrow> exn option"
  path_exists :: "string \<Rightarrow> bool"
  cwd_join :: "string \<Rightarrow> string"

type_synonym outcome = "event list \<times> ending"

subsection \<open>abort and main\<close>

text \<open>
  \<^verbatim>\<open>
  def abort(msg):
      msg_fail("cli", msg)
      sys.exit(1)
  \<close>
\<close>

definition abort :: "string \<Rightarrow> outcome" where
  "abort msg = ([MsgFail ''cli'' msg], SysExit 1)"

text \<open>
  Line 69: \<^verbatim>\<open>args.command and args.command != "list" and args.outbreak not in OUTBREAKS\<close>.
  The conjunction is evaluated from the left, so \<open>args.outbreak\<close> is read only for a
  subcommand other than \<open>list\<close>, and each of those has the attribute.
\<close>

definition unknown_outbreak :: "env \<Rightarrow> args \<Rightarrow> bool" where
  "unknown_outbreak E a =
     (command a \<noteq> None \<and> command a \<noteq> Some ''list'' \<and>
      (case outbreak a of None \<Rightarrow> False | Some ob \<Rightarrow> ob \<notin> set (keys (OUTBREAKS E))))"

text \<open>The branch \<open>case "list"\<close>: one line for every outbreak of the registry.\<close>

fun list_outbreaks :: "registry \<Rightarrow> string list \<Rightarrow> event list \<Rightarrow> outcome" where
  "list_outbreaks reg [] out = (out, Returned)"
| "list_outbreaks reg (ob # obs) out =
     (case map_of reg ob of
        None \<Rightarrow> (out, Raised KeyError)
      | Some entry \<Rightarrow>
          (case map_of entry ''description'' of
             None \<Rightarrow> (out, Raised KeyError)
           | Some descr \<Rightarrow>
               (case map_of entry ''id'' of
                  None \<Rightarrow> (out, Raised KeyError)
                | Some ident \<Rightarrow>
                    list_outbreaks reg obs
                      (out @ [Print (esc # ''[1m'' @ ljust 12 ob @ '' '' @ esc # ''[0m''
                                     @ descr @ '' ['' @ ident @ '']'')]))))"

text \<open>The branch \<open>case "get"\<close>.\<close>

definition get_cmd :: "env \<Rightarrow> string \<Rightarrow> string \<Rightarrow> outcome" where
  "get_cmd E ob bold_outbreak =
     (case map_of (OUTBREAKS E) ob of
        None \<Rightarrow> ([], Raised KeyError)
      | Some entry \<Rightarrow>
          (case map_of entry ''url'' of
             None \<Rightarrow> abort (''no data URL found for '' @ bold_outbreak)
           | Some url \<Rightarrow>
               (let output_file = ob @ ''.csv'' in
                case requests_get E url of
                  Inl e \<Rightarrow> ([RequestsGet url], Raised e)
                | Inr res \<Rightarrow>
                    if status_code res = 200
                    then ([RequestsGet url, WriteText output_file (res_text res),
                           MsgOk ''get'' (''wrote '' @ output_file)], Returned)
                    else ([RequestsGet url], Returned))))"

text \<open>
  Line 93: \<^verbatim>\<open>args.ignore.split(",") if args.ignore is not None else []\<close>
\<close>

definition ignore_keys :: "string option \<Rightarrow> string list" where
  "ignore_keys i = (case i of Some s \<Rightarrow> split CHR '','' s | None \<Rightarrow> [])"

text \<open>The branch \<open>case "lint"\<close>.\<close>

definition lint_cmd ::
  "env \<Rightarrow> string \<Rightarrow> string option \<Rightarrow> string option \<Rightarrow> string option \<Rightarrow> string \<Rightarrow> outcome"
where
  "lint_cmd E ob d s i bold_outbreak =
     (let ks = ignore_keys i in
      case lint E ob d s ks of
        Inl e \<Rightarrow> ([CallLint ob d s ks], Raised e)
      | Inr lint_result \<Rightarrow>
          if ok lint_result
          then ([CallLint ob d s ks, MsgOk ''lint'' (''succeeded for '' @ bold_outbreak)],
                Returned)
          else ([CallLint ob d s ks, MsgFail ''lint'' (''failed for '' @ bold_outbreak),
                 PrintResult lint_result], SysExit 2))"

text \<open>
  The branch \<open>case "report"\<close>. \<^verbatim>\<open>args.data or OUTBREAKS[args.outbreak]["url"]\<close> takes the
  registry's URL when \<open>--data\<close> is absent or empty.
\<close>

definition report_cmd ::
  "env \<Rightarrow> string \<Rightarrow> string option \<Rightarrow> string option \<Rightarrow> string option \<Rightarrow> bool \<Rightarrow> outcome"
where
  "report_cmd E ob d b c opn =
     (case map_of (OUTBREAKS E) ob of
        None \<Rightarrow> ([], Raised KeyError)
      | Some entry \<Rightarrow>
          (case (if d \<noteq> None \<and> d \<noteq> Some [] then d else map_of entry ''url'') of
             None \<Rightarrow> ([], Raised KeyError)
           | Some src \<Rightarrow>
               (case make_report E ob src entry b c of
                  Some e \<Rightarrow> ([CallMakeReport ob src entry b c], Raised e)
                | None \<Rightarrow>
                    if opn \<and> path_exists E (ob @ ''.html'')
                    then ([CallMakeReport ob src entry b c,
                           WebbrowserOpen (''file://'' @ cwd_join E (ob @ ''.html''))],
                          Returned)
                    else ([CallMakeReport ob src entry b c], Returned))))"

text \<open>The \<open>match\<close> statement of lines 77 to 113.\<close>

fun dispatch :: "env \<Rightarrow> args \<Rightarrow> string \<Rightarrow> outcome" where
  "dispatch E ListCmd bo = list_outbreaks (OUTBREAKS E) (keys (OUTBREAKS E)) []"
| "dispatch E (GetCmd ob) bo = get_cmd E ob bo"
| "dispatch E (LintCmd ob d s i) bo = lint_cmd E ob d s i bo"
| "dispatch E (ReportCmd ob d b c opn) bo = report_cmd E ob d b c opn"
| "dispatch E NoCommand bo = ([Print USAGE], Returned)"

text \<open>
  \<open>main\<close> after \<open>parse_args\<close>: the check of the outbreak name (lines 69 to 74), the
  unconditional read of \<open>args.outbreak\<close> for \<open>bold_outbreak\<close> (line 75), and the
  \<open>match\<close>.
\<close>

definition main :: "env \<Rightarrow> args \<Rightarrow> outcome" where
  "main E a =
     (if unknown_outbreak E a
      then abort (''outbreak not known, choose from: '' @ esc # ''[1m''
                  @ join '', '' (keys (OUTBREAKS E)) @ esc # ''[0m'')
      else case outbreak a of
             None \<Rightarrow> ([], Raised AttributeError)
           | Some ob \<Rightarrow> dispatch E a (bold ob))"

text \<open>The calls to \<open>lint\<close> in a trace, each with the inputs it was given.\<close>

fun lint_calls ::
  "event list \<Rightarrow> (string \<times> string option \<times> string option \<times> string list) list"
where
  "lint_calls [] = []"
| "lint_calls (CallLint ob d s ks # es) = (ob, d, s, ks) # lint_calls es"
| "lint_calls (e # es) = lint_calls es"

text \<open>The files written in a trace, each with its path and its content.\<close>

fun written :: "event list \<Rightarrow> (string \<times> string) list" where
  "written [] = []"
| "written (WriteText p t # es) = (p, t) # written es"
| "written (e # es) = written es"

text \<open>
  What "the comma-separated tokens of \<open>s\<close>" are, said without reference to \<open>split\<close>:
  a non-empty list of pieces, none of which holds a comma, that give \<open>s\<close> back when
  joined by commas.
\<close>

definition comma_tokens :: "string \<Rightarrow> string list \<Rightarrow> bool" where
  "comma_tokens s ks =
     (ks \<noteq> [] \<and> list_all (\<lambda>k. CHR '','' \<notin> set k) ks \<and> join '','' ks = s)"

section \<open>The linting core\<close>

text \<open>
  Modelled from the spec: the module \<open>olm/lint.py\<close>, which holds \<open>lint\<close> and the type
  of its result, is not among the sources. The definitions of this section follow
  sections 3, 4 and 6 of the specification: the data model, the rules of the field
  validators that do not depend on a type, and the algorithm of the validation engine.
  The loaders and the checks that depend on the declared type (parsing numbers, dates
  and booleans, the wording of messages) are parameters.
\<close>

datatype field_type = StringT | IntegerT | FloatT | DateT | EnumT | BooleanT

record 'c field_spec =
  name :: string
  required :: bool
  ftype :: field_type
  constraints :: 'c

type_synonym 'c schema = "'c field_spec list"

text \<open>
  A row maps column names to raw cell values. The dataset keeps the header of the
  tabular payload beside its rows, since a dataset without rows still has columns.
\<close>

type_synonym row = "(string \<times> string) list"

record dataset =
  header :: "string list"
  rows :: "row list"

text \<open>
  Modelled from the spec: the per-type validators of section 4.3 (\<open>check_type\<close>: valid,
  or a violation kind and a message) and the message of a violation that the engine
  raises itself, for a kind and a field name (\<open>describe\<close>).
\<close>

record 'c validators =
  check_type :: "'c field_spec \<Rightarrow> string \<Rightarrow> (violation_kind \<times> string) option"
  describe :: "violation_kind \<Rightarrow> string \<Rightarrow> string"

text \<open>
  Modelled from the spec: section 4.3. The required check runs first: an empty or
  missing value of a required field is a \<open>MissingRequiredField\<close> and ends the check of
  the cell; an empty value of a field that is not required is valid; any other value
  goes to the validator of the declared type.
\<close>

definition validate_cell ::
  "'c validators \<Rightarrow> 'c field_spec \<Rightarrow> string option \<Rightarrow> (violation_kind \<times> string) option"
where
  "validate_cell V f cell =
     (case cell of
        None \<Rightarrow>
          if required f
          then Some (MissingRequiredField, describe V MissingRequiredField (name f))
          else None
      | Some v \<Rightarrow>
          if v = []
          then (if required f
                then Some (MissingRequiredField, describe V MissingRequiredField (name f))
                else None)
          else check_type V f v)"

text \<open>
  Modelled from the spec: section 4.4, the inner loop. For each field of the schema, in
  schema order: a field whose name is in the ignore-list is skipped; otherwise the cell
  is looked up and checked, and a violation is appended to the accumulator with the
  index of the row and the name of the field.
\<close>

fun check_fields ::
  "'c validators \<Rightarrow> string list \<Rightarrow> nat \<Rightarrow> row \<Rightarrow> 'c schema \<Rightarrow> violation list \<Rightarrow> violation list"
where
  "check_fields V ign i r [] acc = acc"
| "check_fields V ign i r (f # fs) acc =
     check_fields V ign i r fs
       (if name f \<in> set ign then acc
        else (case validate_cell V f (map_of r (name f)) of
                None \<Rightarrow> acc
              | Some (k, m) \<Rightarrow>
                  acc @ [\<lparr>row_index = Some i, field_name = name f, kind = k,
                          message = m, raw_value = map_of r (name f)\<rparr>]))"

text \<open>Modelled from the spec: section 4.4, the outer loop over the rows, in order.\<close>

fun check_rows ::
  "'c validators \<Rightarrow> string list \<Rightarrow> 'c schema \<Rightarrow> nat \<Rightarrow> row list \<Rightarrow> violation list \<Rightarrow> violation list"
where
  "check_rows V ign sch i [] acc = acc"
| "check_rows V ign sch i (r # rs) acc =
     check_rows V ign sch (Suc i) rs (check_fields V ign i r sch acc)"

text \<open>
  Modelled from the spec: the violations of the dataset as a whole (sections 4.3 and
  4.4). A column of the header that the schema does not declare is an \<open>UnknownField\<close>,
  once for each distinct column; a field of the schema that the header lacks is a
  \<open>MissingColumn\<close>. Neither has a row index.
\<close>

definition unknown_fields :: "'c validators \<Rightarrow> 'c schema \<Rightarrow> dataset \<Rightarrow> violation list" where
  "unknown_fields V sch ds =
     map (\<lambda>c. \<lparr>row_index = None, field_name = c, kind = UnknownField,
               message = describe V UnknownField c, raw_value = None\<rparr>)
         (remdups (filter (\<lambda>c. c \<notin> set (map name sch)) (header ds)))"

definition missing_columns :: "'c validators \<Rightarrow> 'c schema \<Rightarrow> dataset \<Rightarrow> violation list" where
  "missing_columns V sch ds =
     map (\<lambda>f. \<lparr>row_index = None, field_name = name f, kind = MissingColumn,
               message = describe V MissingColumn (name f), raw_value = None\<rparr>)
         (filter (\<lambda>f. name f \<notin> set (header ds)) sch)"

text \<open>
  Modelled from the spec: the validation engine of section 4.4. The violations of the
  cells come first, row by row; those of the dataset follow. The ignore-list excludes
  field names from violation reporting for the run (glossary), and \<open>ok\<close> is true iff the
  final sequence, after the ignore filter, is empty; so the violations of the dataset
  pass the same filter.
\<close>

definition validation_engine ::
  "'c validators \<Rightarrow> 'c schema \<Rightarrow> dataset \<Rightarrow> string list \<Rightarrow> validation_result"
where
  "validation_engine V sch ds ign =
     (let cell_violations = check_rows V ign sch 0 (rows ds) [];
          dataset_violations =
            filter (\<lambda>v. field_name v \<notin> set ign)
                   (unknown_fields V sch ds @ missing_columns V sch ds);
          vs = cell_violations @ dataset_violations
      in \<lparr>ok = (vs = []), violations = vs\<rparr>)"

text \<open>
  Modelled from the spec: the loaders of sections 4.1 and 4.2 and the entry point of
  section 6, \<open>lint(dataset_source, schema_source, ignore_fields)\<close>. A loader fails with
  its load error, which ends the run without a result.
\<close>

datatype load_error = SchemaLoadError string | DatasetLoadError string

record 'c loaders =
  load_schema :: "string \<Rightarrow> load_error + 'c schema"
  load_dataset :: "string \<Rightarrow> load_error + dataset"

definition spec_lint ::
  "'c loaders \<Rightarrow> 'c validators \<Rightarrow> string \<Rightarrow> string \<Rightarrow> string list
     \<Rightarrow> load_error + validation_result"
where
  "spec_lint L V dataset_source schema_source ignore_fields =
     (case load_schema L schema_source of
        Inl e \<Rightarrow> Inl e
      | Inr sch \<Rightarrow>
          (case load_dataset L dataset_source of
             Inl e \<Rightarrow> Inl e
           | Inr ds \<Rightarrow> Inr (validation_engine V sch ds ignore_fields)))"





section \<open>Concrete inputs\<close>

text \<open>A registry of two outbreaks, of which only the first has a data URL.\<close>

definition example_registry :: registry where
  "example_registry =
     [(''marburg'', [(''id'', ''GHL2023.D11.1D60.1''),
                     (''description'', ''Marburg 2023 Equatorial Guinea''),
                     (''url'', ''https://example.org/marburg.csv'')]),
      (''mpox'', [(''id'', ''GHL2024.D11.1E71''),
                  (''description'', ''Mpox 2024'')])]"

text \<open>
  A schema with a required string field and an enum field, whose constraint is the list
  of allowed values, and a validator for these two types.
\<close>

definition example_schema :: "string list schema" where
  "example_schema =
     [\<lparr>name = ''case_id'', required = True, ftype = StringT, constraints = []\<rparr>,
      \<lparr>name = ''outcome'', required = False, ftype = EnumT,
       constraints = [''recovered'', ''deceased'', ''active'']\<rparr>]"

definition example_validators :: "string list validators" where
  "example_validators =
     \<lparr>check_type = (\<lambda>f v. if ftype f = EnumT \<and> v \<notin> set (constraints f)
                           then Some (InvalidEnumValue, ''value not allowed'') else None),
      describe = (\<lambda>k n. ''problem with '' @ n)\<rparr>"

definition example_dataset :: dataset where
  "example_dataset =
     \<lparr>header = [''case_id'', ''outcome''],
      rows = [[(''case_id'', []), (''outcome'', ''unknown'')],
              [(''case_id'', ''c2''), (''outcome'', ''active'')]]\<rparr>"

definition example_loaders :: "string list loaders" where
  "example_loaders =
     \<lparr>load_schema = (\<lambda>src. if src = ''schema.json'' then Inr example_schema
                            else Inl (SchemaLoadError src)),
      load_dataset = (\<lambda>src. if src = ''data.csv'' then Inr example_dataset
                             else Inl (DatasetLoadError src))\<rparr>"

text \<open>
  An environment for \<open>main\<close>: the server answers 404 to every request, and \<open>lint\<close> runs
  the engine on the example dataset and schema with the ignore-list it is given.
\<close>

definition example_env :: env where
  "example_env =
     \<lparr>OUTBREAKS = example_registry,
      requests_get = (\<lambda>url. Inr \<lparr>status_code = 404, res_text = ''not found''\<rparr>),
      lint = (\<lambda>ob d s ks.
                Inr (validation_engine example_validators example_schema example_dataset ks)),
      make_report = (\<lambda>ob src entry b c. None),
      path_exists = (\<lambda>p. False),
      cwd_join = (\<lambda>p. ''/tmp/'' @ p)\<rparr>"


section \<open>Properties of the string functions\<close>

lemma split_not_Nil: "split c s \<noteq> []"
  by (induction s) auto

lemma join_Cons_head: "join sep ((x # k) # ks) = x # join sep (k # ks)"
  by (cases ks) auto

lemma join_split: "join [c] (split c s) = s"
proof (induction s)
  case Nil
  show ?case by simp
next
  case (Cons x xs)
  obtain k ks where sp: "split c xs = k # ks"
    using split_not_Nil [of c xs] by (cases "split c xs") auto
  show ?case
  proof (cases "x = c")
    case True
    with Cons sp show ?thesis by simp
  next
    case False
    with Cons sp show ?thesis by (simp add: join_Cons_head)
  qed
qed

lemma split_pieces: "k \<in> set (split c s) \<Longrightarrow> c \<notin> set k"
proof (induction s arbitrary: k)
  case Nil
  then show ?case by simp
next
  case (Cons x xs)
  obtain k' ks where sp: "split c xs = k' # ks"
    using split_not_Nil [of c xs] by (cases "split c xs") auto
  from Cons sp show ?case
    by (auto split: if_splits)
qed

lemma split_plain: "c \<notin> set k \<Longrightarrow> split c k = [k]"
  by (induction k) auto

lemma split_append_sep: "c \<notin> set k \<Longrightarrow> split c (k @ c # r) = k # split c r"
  by (induction k) auto

lemma split_join:
  "ks \<noteq> [] \<Longrightarrow> list_all (\<lambda>k. c \<notin> set k) ks \<Longrightarrow> split c (join [c] ks) = ks"
proof (induction "[c]" ks rule: join.induct)
  case 1
  then show ?case by simp
next
  case (2 x)
  then show ?case by (simp add: split_plain)
next
  case (3 x y ys)
  then show ?case by (simp add: split_append_sep)
qed

lemma comma_tokens_split: "comma_tokens s (split CHR '','' s)"
  unfolding comma_tokens_def
  using join_split [of "CHR '',''" s] split_pieces [of _ "CHR '',''" s]
  by (simp add: split_not_Nil list_all_iff)

lemma comma_tokens_unique: "comma_tokens s ks \<Longrightarrow> ks = split CHR '','' s"
  unfolding comma_tokens_def
  using split_join [of ks "CHR '',''"] by auto

section \<open>Properties of the engine\<close>

lemma check_fields_ignored:
  "\<forall>v \<in> set acc. field_name v \<notin> set ign \<Longrightarrow>
   \<forall>v \<in> set (check_fields V ign i r fs acc). field_name v \<notin> set ign"
proof (induction fs arbitrary: acc)
  case Nil
  then show ?case by simp
next
  case (Cons f fs)
  let ?acc = "if name f \<in> set ign then acc
              else (case validate_cell V f (map_of r (name f)) of
                      None \<Rightarrow> acc
                    | Some (k, m) \<Rightarrow>
                        acc @ [\<lparr>row_index = Some i, field_name = name f, kind = k,
                                message = m, raw_value = map_of r (name f)\<rparr>])"
  from Cons.prems have "\<forall>v \<in> set ?acc. field_name v \<notin> set ign"
    by (auto split: option.splits)
  then have "\<forall>v \<in> set (check_fields V ign i r fs ?acc). field_name v \<notin> set ign"
    by (rule Cons.IH)
  then show ?case by simp
qed

lemma check_rows_ignored:
  "\<forall>v \<in> set acc. field_name v \<notin> set ign \<Longrightarrow>
   \<forall>v \<in> set (check_rows V ign sch i rs acc). field_name v \<notin> set ign"
proof (induction rs arbitrary: i acc)
  case Nil
  then show ?case by simp
next
  case (Cons r rs)
  from Cons.prems have "\<forall>v \<in> set (check_fields V ign i r sch acc). field_name v \<notin> set ign"
    by (rule check_fields_ignored)
  then show ?case
    using Cons.IH by simp
qed

lemma engine_ignored:
  "v \<in> set (violations (validation_engine V sch ds ign)) \<Longrightarrow> field_name v \<notin> set ign"
  using check_rows_ignored [of "[]" ign V sch 0 "rows ds"]
  by (auto simp: validation_engine_def Let_def)




lemma engine_ok: "ok (validation_engine V sch ds ign) = (violations (validation_engine V sch ds ign) = [])"
  by (simp add: validation_engine_def Let_def)

lemma spec_lint_Inr:
  "spec_lint L V dsrc ssrc ign = Inr r \<Longrightarrow>
   \<exists>sch ds. load_schema L ssrc = Inr sch \<and> load_dataset L dsrc = Inr ds \<and> r = validation_engine V sch ds ign"
  by (auto simp: spec_lint_def split: sum.splits)



text \<open>
  A pass that starts from an accumulator that is not empty keeps what it finds there in
  front of its own violations. So the result of a run is the same from every state only
  because the run starts the accumulator empty.
\<close>

lemma check_fields_acc:
  "check_fields V ign i r fs acc = acc @ check_fields V ign i r fs []"
proof (induction fs arbitrary: acc)
  case Nil
  show ?case by simp
next
  case (Cons f fs)
  show ?case
    using Cons.IH [of "acc @ [x]" for x] Cons.IH [of "[x]" for x] Cons.IH [of acc]
    by (auto split: option.splits)
qed

lemma check_rows_acc:
  "check_rows V ign sch i rs acc = acc @ check_rows V ign sch i rs []"
proof (induction rs arbitrary: i acc)
  case Nil
  show ?case by simp
next
  case (Cons r rs)
  have "check_rows V ign sch (Suc i) rs (check_fields V ign i r sch acc)
        = check_fields V ign i r sch acc @ check_rows V ign sch (Suc i) rs []"
    by (rule Cons.IH)
  moreover have "check_rows V ign sch (Suc i) rs (check_fields V ign i r sch [])
        = check_fields V ign i r sch [] @ check_rows V ign sch (Suc i) rs []"
    by (rule Cons.IH)
  moreover have "check_fields V ign i r sch acc = acc @ check_fields V ign i r sch []"
    by (rule check_fields_acc)
  ultimately show ?case by simp
qed

section \<open>Properties of main\<close>

lemma known_outbreak: "ob \<in> set (keys (OUTBREAKS E)) \<Longrightarrow> outbreak a = Some ob \<Longrightarrow> \<not> unknown_outbreak E a"
  by (simp add: unknown_outbreak_def)

lemma main_lint:
  "ob \<in> set (keys (OUTBREAKS E)) \<Longrightarrow> main E (LintCmd ob d s i) = lint_cmd E ob d s i (bold ob)"
  by (simp add: main_def known_outbreak)

lemma main_get:
  "ob \<in> set (keys (OUTBREAKS E)) \<Longrightarrow> main E (GetCmd ob) = get_cmd E ob (bold ob)"
  by (simp add: main_def known_outbreak)

lemma map_of_keys: "map_of d k = Some v \<Longrightarrow> k \<in> set (keys d)"
  by (auto simp: keys_def dest: map_of_SomeD intro: rev_image_eqI)

lemma unknown_outbreak_lint_update:
  "unknown_outbreak (E\<lparr>lint := f\<rparr>) a = unknown_outbreak E a"
  by (simp add: unknown_outbreak_def cong: option.case_cong)

lemma get_cmd_lint_update: "get_cmd (E\<lparr>lint := f\<rparr>) ob bo = get_cmd E ob bo"
  by (simp add: get_cmd_def Let_def cong: option.case_cong sum.case_cong)

lemma report_cmd_lint_update:
  "report_cmd (E\<lparr>lint := f\<rparr>) ob d b c opn = report_cmd E ob d b c opn"
  by (simp add: report_cmd_def cong: option.case_cong if_cong)

lemma lint_cmd_lint_update:
  "f ob d s (ignore_keys i) = lint E ob d s (ignore_keys i) \<Longrightarrow>
   lint_cmd (E\<lparr>lint := f\<rparr>) ob d s i bo = lint_cmd E ob d s i bo"
  by (simp add: lint_cmd_def)

lemma get_cmd_no_lint_call: "lint_calls (fst (get_cmd E ob bo)) = []"
  by (simp add: get_cmd_def abort_def Let_def split: option.splits sum.splits)

lemma report_cmd_no_lint_call: "lint_calls (fst (report_cmd E ob d b c opn)) = []"
proof (cases "map_of (OUTBREAKS E) ob")
  case None
  then show ?thesis by (simp add: report_cmd_def)
next
  case (Some entry)
  show ?thesis
  proof (cases "if d \<noteq> None \<and> d \<noteq> Some [] then d else map_of entry ''url''")
    case None
    with Some show ?thesis by (simp add: report_cmd_def)
  next
    case src: (Some src)
    show ?thesis
    proof (cases "make_report E ob src entry b c")
      case None
      with Some src show ?thesis by (simp add: report_cmd_def)
    next
      case (Some e)
      with \<open>map_of (OUTBREAKS E) ob = Some entry\<close> src show ?thesis
        by (simp add: report_cmd_def)
    qed
  qed
qed

lemma lint_cmd_lint_call:
  "lint_calls (fst (lint_cmd E ob d s i bo)) = [(ob, d, s, ignore_keys i)]"
  by (simp add: lint_cmd_def Let_def split: sum.splits)

lemma abort_no_lint_call: "lint_calls (fst (abort msg)) = []"
  by (simp add: abort_def)

section \<open>The claims about the linting core\<close>

text \<open>
  C1. For every dataset, schema and ignore-list, the result that lint returns has \<open>ok\<close>
  true if and only if its sequence of violations, after the ignore filter, is empty.
\<close>

theorem lint_ok_iff_no_violations:
  assumes "spec_lint L V dataset_source schema_source ign = Inr r"
  shows "ok r \<longleftrightarrow> violations r = []"
proof -
  from assms obtain sch ds where "r = validation_engine V sch ds ign"
    by (auto dest: spec_lint_Inr)
  then show ?thesis by (simp add: engine_ok)
qed

theorem lint_ok_iff_no_violations_witness:
  "spec_lint example_loaders example_validators ''data.csv'' ''schema.json''
     [''case_id'', ''outcome''] = Inr \<lparr>ok = True, violations = []\<rparr>
   \<and> (ok \<lparr>ok = True, violations = []\<rparr>
        \<longleftrightarrow> violations \<lparr>ok = True, violations = []\<rparr> = [])
   \<and> spec_lint example_loaders example_validators ''data.csv'' ''schema.json'' [''outcome'']
     = Inr \<lparr>ok = False,
            violations = [\<lparr>row_index = Some 0, field_name = ''case_id'',
                           kind = MissingRequiredField, message = ''problem with case_id'',
                           raw_value = Some []\<rparr>]\<rparr>"
proof -
  have run: "spec_lint example_loaders example_validators ''data.csv'' ''schema.json''
     [''case_id'', ''outcome''] = Inr \<lparr>ok = True, violations = []\<rparr>"
    by (simp add: spec_lint_def example_loaders_def validation_engine_def example_schema_def
        example_dataset_def example_validators_def unknown_fields_def missing_columns_def)
  have run': "spec_lint example_loaders example_validators ''data.csv'' ''schema.json''
      [''outcome'']
     = Inr \<lparr>ok = False,
            violations = [\<lparr>row_index = Some 0, field_name = ''case_id'',
                           kind = MissingRequiredField, message = ''problem with case_id'',
                           raw_value = Some []\<rparr>]\<rparr>"
    by (simp add: spec_lint_def example_loaders_def validation_engine_def example_schema_def
        example_dataset_def example_validators_def unknown_fields_def missing_columns_def
        validate_cell_def)
  from run run' lint_ok_iff_no_violations [OF run] lint_ok_iff_no_violations [OF run']
  show ?thesis by simp
qed

text \<open>
  C3. If a field name is in the ignore-list, no violation that carries this field name
  appears in the result, whatever the dataset, the schema and the cells hold.
\<close>

theorem lint_ignored_field_has_no_violation:
  assumes "spec_lint L V dataset_source schema_source ign = Inr r"
    and "n \<in> set ign"
  shows "\<forall>v \<in> set (violations r). field_name v \<noteq> n"
proof -
  from assms(1) obtain sch ds where "r = validation_engine V sch ds ign"
    by (auto dest: spec_lint_Inr)
  with assms(2) show ?thesis
    by (auto dest: engine_ignored)
qed

theorem lint_ignored_field_has_no_violation_witness:
  "spec_lint example_loaders example_validators ''data.csv'' ''schema.json'' [''outcome'']
     = Inr \<lparr>ok = False,
            violations = [\<lparr>row_index = Some 0, field_name = ''case_id'',
                           kind = MissingRequiredField, message = ''problem with case_id'',
                           raw_value = Some []\<rparr>]\<rparr>
   \<and> ''outcome'' \<in> set [''outcome'']
   \<and> field_name \<lparr>row_index = Some 0, field_name = ''case_id'',
                   kind = MissingRequiredField, message = ''problem with case_id'',
                   raw_value = Some []\<rparr> \<noteq> ''outcome''"
proof -
  have run: "spec_lint example_loaders example_validators ''data.csv'' ''schema.json''
      [''outcome'']
     = Inr \<lparr>ok = False,
            violations = [\<lparr>row_index = Some 0, field_name = ''case_id'',
                           kind = MissingRequiredField, message = ''problem with case_id'',
                           raw_value = Some []\<rparr>]\<rparr>"
    by (simp add: spec_lint_def example_loaders_def validation_engine_def example_schema_def
        example_dataset_def example_validators_def unknown_fields_def missing_columns_def
        validate_cell_def)
  have mem: "''outcome'' \<in> set [''outcome'']" by simp
  from run mem lint_ignored_field_has_no_violation [OF run mem] show ?thesis by simp
qed



section \<open>The claims about main\<close>

text \<open>
  C2. An invocation of the lint subcommand that completes a validation run (the outbreak
  is known and \<open>lint\<close> returns a result) ends with exit status 0 when the result's \<open>ok\<close> is
  true and with a non-zero status, which is 2, when it is false.
\<close>

theorem lint_exit_status:
  assumes "ob \<in> set (keys (OUTBREAKS E))"
    and "lint E ob d s (ignore_keys i) = Inr r"
  shows "(ok r \<longrightarrow> exit_status (snd (main E (LintCmd ob d s i))) = 0) \<and>
         (\<not> ok r \<longrightarrow> exit_status (snd (main E (LintCmd ob d s i))) = 2 \<and>
                     exit_status (snd (main E (LintCmd ob d s i))) \<noteq> 0)"
  using assms by (simp add: main_lint lint_cmd_def)

theorem lint_exit_status_witness:
  "''mpox'' \<in> set (keys (OUTBREAKS example_env))
   \<and> ok (validation_engine example_validators example_schema example_dataset
           [''case_id'', ''outcome''])
   \<and> exit_status (snd (main example_env (LintCmd ''mpox'' None None (Some ''case_id,outcome'')))) = 0
   \<and> \<not> ok (validation_engine example_validators example_schema example_dataset [])
   \<and> exit_status (snd (main example_env (LintCmd ''mpox'' None None None))) = 2"
proof -
  have known: "''mpox'' \<in> set (keys (OUTBREAKS example_env))"
    by (simp add: example_env_def example_registry_def keys_def)
  have keys1: "ignore_keys (Some ''case_id,outcome'') = [''case_id'', ''outcome'']"
    by (simp add: ignore_keys_def)
  have keys2: "ignore_keys None = []"
    by (simp add: ignore_keys_def)
  have run1: "lint example_env ''mpox'' None None (ignore_keys (Some ''case_id,outcome''))
      = Inr (validation_engine example_validators example_schema example_dataset
               [''case_id'', ''outcome''])"
    by (simp add: example_env_def keys1)
  have run2: "lint example_env ''mpox'' None None (ignore_keys None)
      = Inr (validation_engine example_validators example_schema example_dataset [])"
    by (simp add: example_env_def keys2)
  have ok1: "ok (validation_engine example_validators example_schema example_dataset
                  [''case_id'', ''outcome''])"
    by (simp add: validation_engine_def example_schema_def
        example_dataset_def example_validators_def unknown_fields_def missing_columns_def)
  have ok2: "\<not> ok (validation_engine example_validators example_schema example_dataset [])"
    by (simp add: validation_engine_def example_schema_def
        example_dataset_def example_validators_def unknown_fields_def missing_columns_def
        validate_cell_def)
  from known ok1 ok2 lint_exit_status [OF known run1] lint_exit_status [OF known run2]
  show ?thesis by simp
qed

text \<open>
  C4. Claimed: the core's sole entry point is lint, with exactly three inputs: a dataset
  source, a schema source and a set of ignore field names. If these three were all that
  lint is given, two invocations that agree on them would make the same call. They do
  not: the call carries the outbreak name as well.
\<close>

theorem lint_three_inputs_counterexample:
  "lint_calls (fst (main example_env
      (LintCmd ''marburg'' (Some ''data.csv'') (Some ''schema.json'') (Some ''outcome''))))
   \<noteq> lint_calls (fst (main example_env
      (LintCmd ''mpox'' (Some ''data.csv'') (Some ''schema.json'') (Some ''outcome''))))"
proof -
  have known: "''marburg'' \<in> set (keys (OUTBREAKS example_env))"
      "''mpox'' \<in> set (keys (OUTBREAKS example_env))"
    by (simp_all add: example_env_def example_registry_def keys_def)
  show ?thesis
    by (simp add: main_lint [OF known(1)] main_lint [OF known(2)] lint_cmd_def Let_def
        split: sum.splits)
qed

text \<open>
  C4, amended. The core's sole public entry point is the lint operation: whatever the
  command line, \<open>main\<close> reaches the core through calls of \<open>lint\<close> only (one call for the
  lint subcommand with a known outbreak, none otherwise), and what \<open>main\<close> does depends on
  the core through the result of that call alone. lint takes exactly four inputs, in
  this order: the outbreak name, a dataset source (\<open>--data\<close>), a schema source
  (\<open>--schema\<close>) and the ignore field names (the list of \<open>--ignore\<close> tokens), and returns
  a Validation Result, or raises.
\<close>

theorem lint_sole_entry_four_inputs:
  "lint_calls (fst (main E a)) =
     (case a of
        LintCmd ob d s i \<Rightarrow>
          if ob \<in> set (keys (OUTBREAKS E)) then [(ob, d, s, ignore_keys i)] else []
      | _ \<Rightarrow> []) \<and>
   (\<forall>f. (\<forall>ob d s i. a = LintCmd ob d s i \<longrightarrow>
              f ob d s (ignore_keys i) = lint E ob d s (ignore_keys i))
        \<longrightarrow> main (E\<lparr>lint := f\<rparr>) a = main E a)"
proof (cases a)
  case NoCommand
  then show ?thesis by (simp add: main_def unknown_outbreak_def)
next
  case ListCmd
  then show ?thesis by (simp add: main_def unknown_outbreak_def)
next
  case (GetCmd ob)
  then show ?thesis
    by (simp add: main_def unknown_outbreak_lint_update get_cmd_lint_update
        get_cmd_no_lint_call abort_no_lint_call)
next
  case (LintCmd ob d s i)
  have calls: "lint_calls (fst (main E (LintCmd ob d s i))) =
      (if ob \<in> set (keys (OUTBREAKS E)) then [(ob, d, s, ignore_keys i)] else [])"
    by (simp add: main_def unknown_outbreak_def lint_cmd_lint_call abort_no_lint_call)
  have same: "main (E\<lparr>lint := f\<rparr>) (LintCmd ob d s i) = main E (LintCmd ob d s i)"
    if "f ob d s (ignore_keys i) = lint E ob d s (ignore_keys i)" for f
    using that lint_cmd_lint_update [of f ob d s i E "bold ob"]
    by (simp add: main_def unknown_outbreak_lint_update)
  from LintCmd calls same show ?thesis by simp
next
  case (ReportCmd ob d b c opn)
  then show ?thesis
    by (simp add: main_def unknown_outbreak_lint_update report_cmd_lint_update
        report_cmd_no_lint_call abort_no_lint_call)
qed

theorem lint_sole_entry_four_inputs_witness:
  "lint_calls (fst (main example_env
      (LintCmd ''marburg'' (Some ''data.csv'') (Some ''schema.json'') (Some ''outcome''))))
     = [(''marburg'', Some ''data.csv'', Some ''schema.json'', [''outcome''])] \<and>
   lint_calls (fst (main example_env
      (LintCmd ''ebola'' (Some ''data.csv'') (Some ''schema.json'') (Some ''outcome'')))) = [] \<and>
   lint_calls (fst (main example_env (GetCmd ''marburg''))) = [] \<and>
   lint_calls (fst (main example_env (ReportCmd ''marburg'' None None None False))) = [] \<and>
   main (example_env\<lparr>lint := \<lambda>ob d s ks.
            if ks = [''outcome'']
            then Inr (validation_engine example_validators example_schema example_dataset ks)
            else Inl (Failure ''not called'')\<rparr>)
        (LintCmd ''marburg'' (Some ''data.csv'') (Some ''schema.json'') (Some ''outcome''))
     = main example_env
        (LintCmd ''marburg'' (Some ''data.csv'') (Some ''schema.json'') (Some ''outcome''))"
proof -
  let ?a = "LintCmd ''marburg'' (Some ''data.csv'') (Some ''schema.json'') (Some ''outcome'')"
  let ?f = "\<lambda>(ob :: string) (d :: string option) (s :: string option) ks.
            if ks = [''outcome'']
            then Inr (validation_engine example_validators example_schema example_dataset ks)
            else Inl (Failure ''not called'')"
  have reg: "keys (OUTBREAKS example_env) = [''marburg'', ''mpox'']"
    by (simp add: example_env_def example_registry_def keys_def)
  have toks: "ignore_keys (Some ''outcome'') = [''outcome'']"
    by (simp add: ignore_keys_def)
  have agree: "\<forall>ob d s i. ?a = LintCmd ob d s i \<longrightarrow>
          ?f ob d s (ignore_keys i) = lint example_env ob d s (ignore_keys i)"
    by (simp add: toks example_env_def)
  have c1: "lint_calls (fst (main example_env ?a))
              = [(''marburg'', Some ''data.csv'', Some ''schema.json'', [''outcome''])]"
    using lint_sole_entry_four_inputs [of example_env ?a, THEN conjunct1]
    by (simp add: reg toks)
  have c2: "lint_calls (fst (main example_env
      (LintCmd ''ebola'' (Some ''data.csv'') (Some ''schema.json'') (Some ''outcome'')))) = []"
    using lint_sole_entry_four_inputs [of example_env
      "LintCmd ''ebola'' (Some ''data.csv'') (Some ''schema.json'') (Some ''outcome'')",
      THEN conjunct1]
    by (simp add: reg)
  have c3: "lint_calls (fst (main example_env (GetCmd ''marburg''))) = []"
    using lint_sole_entry_four_inputs [of example_env "GetCmd ''marburg''", THEN conjunct1]
    by simp
  have c4: "lint_calls (fst (main example_env (ReportCmd ''marburg'' None None None False)))
              = []"
    using lint_sole_entry_four_inputs [of example_env
      "ReportCmd ''marburg'' None None None False", THEN conjunct1]
    by simp
  have c5: "main (example_env\<lparr>lint := ?f\<rparr>) ?a = main example_env ?a"
  proof -
    have "(\<forall>ob d s i. ?a = LintCmd ob d s i \<longrightarrow>
              ?f ob d s (ignore_keys i) = lint example_env ob d s (ignore_keys i))
          \<longrightarrow> main (example_env\<lparr>lint := ?f\<rparr>) ?a = main example_env ?a"
      using lint_sole_entry_four_inputs [of example_env ?a, THEN conjunct2]
      by (rule spec)
    from this agree show ?thesis by (rule mp)
  qed
  from c1 c2 c3 c4 c5 show ?thesis
    by (intro conjI)
qed

text \<open>
  C5. For a completed validation run of the lint subcommand: if the result has
  violations, the failure message and then the result with its violations are printed;
  if it has none, the success message is printed and the result is not. \<open>main\<close> decides
  by the \<open>ok\<close> flag, which for a Validation Result is true iff there is no violation.
\<close>

theorem lint_messages:
  assumes "ob \<in> set (keys (OUTBREAKS E))"
    and "lint E ob d s (ignore_keys i) = Inr r"
    and "ok r \<longleftrightarrow> violations r = []"
  shows "(violations r \<noteq> [] \<longrightarrow>
            fst (main E (LintCmd ob d s i)) =
              [CallLint ob d s (ignore_keys i),
               MsgFail ''lint'' (''failed for '' @ bold ob),
               PrintResult r]) \<and>
         (violations r = [] \<longrightarrow>
            fst (main E (LintCmd ob d s i)) =
              [CallLint ob d s (ignore_keys i),
               MsgOk ''lint'' (''succeeded for '' @ bold ob)])"
  using assms by (simp add: main_lint lint_cmd_def Let_def)

theorem lint_messages_witness:
  "''mpox'' \<in> set (keys (OUTBREAKS example_env)) \<and>
   violations (validation_engine example_validators example_schema example_dataset []) \<noteq> [] \<and>
   fst (main example_env (LintCmd ''mpox'' None None None)) =
     [CallLint ''mpox'' None None [],
      MsgFail ''lint'' (''failed for '' @ bold ''mpox''),
      PrintResult (validation_engine example_validators example_schema example_dataset [])] \<and>
   violations (validation_engine example_validators example_schema example_dataset
                 [''case_id'', ''outcome'']) = [] \<and>
   fst (main example_env (LintCmd ''mpox'' None None (Some ''case_id,outcome''))) =
     [CallLint ''mpox'' None None [''case_id'', ''outcome''],
      MsgOk ''lint'' (''succeeded for '' @ bold ''mpox'')]"
proof -
  let ?r1 = "validation_engine example_validators example_schema example_dataset []"
  let ?r2 = "validation_engine example_validators example_schema example_dataset
               [''case_id'', ''outcome'']"
  have known: "''mpox'' \<in> set (keys (OUTBREAKS example_env))"
    by (simp add: example_env_def example_registry_def keys_def)
  have keys1: "ignore_keys None = []"
    by (simp add: ignore_keys_def)
  have keys2: "ignore_keys (Some ''case_id,outcome'') = [''case_id'', ''outcome'']"
    by (simp add: ignore_keys_def)
  have run1: "lint example_env ''mpox'' None None (ignore_keys None) = Inr ?r1"
    by (simp add: example_env_def keys1)
  have run2: "lint example_env ''mpox'' None None (ignore_keys (Some ''case_id,outcome''))
                = Inr ?r2"
    by (simp add: example_env_def keys2)
  have inv1: "ok ?r1 \<longleftrightarrow> violations ?r1 = []"
    by (rule engine_ok)
  have inv2: "ok ?r2 \<longleftrightarrow> violations ?r2 = []"
    by (rule engine_ok)
  have some: "violations ?r1 \<noteq> []"
    by (simp add: validation_engine_def example_schema_def example_dataset_def
        example_validators_def unknown_fields_def missing_columns_def validate_cell_def)
  have none: "violations ?r2 = []"
    by (simp add: validation_engine_def example_schema_def example_dataset_def
        example_validators_def unknown_fields_def missing_columns_def)
  from known some none keys1 keys2
    lint_messages [OF known run1 inv1] lint_messages [OF known run2 inv2]
  show ?thesis by simp
qed

text \<open>
  C6. The ignore-list that the lint subcommand passes to lint is empty when \<open>--ignore\<close> is
  not given; when it is given, the list is the comma-separated tokens of its argument,
  in order: the one list of pieces without a comma that, joined by commas, is the
  argument.
\<close>

theorem lint_ignore_list:
  assumes "ob \<in> set (keys (OUTBREAKS E))"
  shows "map (\<lambda>(ob, d, s, ks). ks) (lint_calls (fst (main E (LintCmd ob d s i))))
           = [ignore_keys i] \<and>
         (i = None \<longrightarrow> ignore_keys i = []) \<and>
         (\<forall>str. i = Some str \<longrightarrow>
            comma_tokens str (ignore_keys i) \<and>
            (\<forall>ks. comma_tokens str ks \<longrightarrow> ks = ignore_keys i))"
proof -
  have "lint_calls (fst (main E (LintCmd ob d s i))) = [(ob, d, s, ignore_keys i)]"
    using assms by (simp add: main_lint lint_cmd_def Let_def split: sum.splits)
  moreover have "i = None \<longrightarrow> ignore_keys i = []"
    by (simp add: ignore_keys_def)
  moreover have "\<forall>str. i = Some str \<longrightarrow>
            comma_tokens str (ignore_keys i) \<and>
            (\<forall>ks. comma_tokens str ks \<longrightarrow> ks = ignore_keys i)"
    by (auto simp: ignore_keys_def comma_tokens_split dest: comma_tokens_unique)
  ultimately show ?thesis by simp
qed

theorem lint_ignore_list_witness:
  "''mpox'' \<in> set (keys (OUTBREAKS example_env)) \<and>
   map (\<lambda>(ob, d, s, ks). ks)
     (lint_calls (fst (main example_env (LintCmd ''mpox'' None None (Some ''a,,b'')))))
     = [[''a'', [], ''b'']] \<and>
   comma_tokens ''a,,b'' [''a'', [], ''b''] \<and>
   map (\<lambda>(ob, d, s, ks). ks)
     (lint_calls (fst (main example_env (LintCmd ''mpox'' None None None)))) = [[]]"
proof -
  have known: "''mpox'' \<in> set (keys (OUTBREAKS example_env))"
    by (simp add: example_env_def example_registry_def keys_def)
  have keys1: "ignore_keys (Some ''a,,b'') = [''a'', [], ''b'']"
    by (simp add: ignore_keys_def)
  have keys2: "ignore_keys None = []"
    by (simp add: ignore_keys_def)
  from known keys1 keys2
    lint_ignore_list [OF known, of None None "Some ''a,,b''"]
    lint_ignore_list [OF known, of None None None]
  show ?thesis by simp
qed

text \<open>
  C8. For the list subcommand and for a command line without a subcommand, the check of
  line 69 is skipped and line 75 reads \<open>args.outbreak\<close>, which the namespace does not
  have: the program raises \<open>AttributeError\<close> (exit status 1) before anything is printed.
  The branches \<open>case "list"\<close> and \<open>case None\<close> are never reached, and they are the only
  ones that call \<open>print\<close> on a string: no invocation prints the listing or the usage text.
\<close>

theorem list_and_no_command_raise:
  "main E ListCmd = ([], Raised AttributeError) \<and>
   main E NoCommand = ([], Raised AttributeError) \<and>
   exit_status (snd (main E ListCmd)) = 1 \<and>
   exit_status (snd (main E NoCommand)) = 1 \<and>
   (\<forall>a str. Print str \<notin> set (fst (main E a)))"
proof -
  have "Print str \<notin> set (fst (main E a))" for a str
  proof (cases a)
    case NoCommand
    then show ?thesis by (simp add: main_def unknown_outbreak_def)
  next
    case ListCmd
    then show ?thesis by (simp add: main_def unknown_outbreak_def)
  next
    case (GetCmd ob)
    then show ?thesis
      by (simp add: main_def abort_def get_cmd_def Let_def split: option.splits sum.splits)
  next
    case (LintCmd ob d s i)
    then show ?thesis
      by (simp add: main_def abort_def lint_cmd_def Let_def split: option.splits sum.splits)
  next
    case (ReportCmd ob d b c opn)
    then show ?thesis
      by (simp add: main_def abort_def report_cmd_def split: option.splits)
  qed
  then show ?thesis
    by (simp add: main_def unknown_outbreak_def)
qed

theorem list_and_no_command_raise_witness:
  "main example_env ListCmd = ([], Raised AttributeError) \<and>
   main example_env NoCommand = ([], Raised AttributeError) \<and>
   Print USAGE \<notin> set (fst (main example_env NoCommand))"
  using list_and_no_command_raise [of example_env] by simp

text \<open>
  C9. For the get subcommand with a known outbreak that has a data URL, when the request
  is answered: the file \<open>outbreak.csv\<close> is written, with the body of the response, if
  and only if the status is 200. For any other status nothing is written, no message is
  printed and the program returns, so the exit status is 0.
\<close>

theorem get_writes_iff_200:
  assumes "map_of (OUTBREAKS E) ob = Some entry"
    and "map_of entry ''url'' = Some url"
    and "requests_get E url = Inr res"
  shows "written (fst (main E (GetCmd ob))) =
           (if status_code res = 200 then [(ob @ ''.csv'', res_text res)] else []) \<and>
         (status_code res = 200 \<longrightarrow>
            main E (GetCmd ob) =
              ([RequestsGet url, WriteText (ob @ ''.csv'') (res_text res),
                MsgOk ''get'' (''wrote '' @ ob @ ''.csv'')], Returned)) \<and>
         (status_code res \<noteq> 200 \<longrightarrow>
            main E (GetCmd ob) = ([RequestsGet url], Returned) \<and>
            exit_status (snd (main E (GetCmd ob))) = 0)"
proof -
  from assms(1) have "ob \<in> set (keys (OUTBREAKS E))"
    by (rule map_of_keys)
  then have "main E (GetCmd ob) = get_cmd E ob (bold ob)"
    by (rule main_get)
  with assms show ?thesis
    by (simp add: get_cmd_def Let_def)
qed

theorem get_writes_iff_200_witness:
  "main example_env (GetCmd ''marburg'') =
     ([RequestsGet ''https://example.org/marburg.csv''], Returned) \<and>
   written (fst (main example_env (GetCmd ''marburg''))) = [] \<and>
   main (example_env\<lparr>requests_get := \<lambda>url. Inr \<lparr>status_code = 200, res_text = ''id,age''\<rparr>\<rparr>)
        (GetCmd ''marburg'') =
     ([RequestsGet ''https://example.org/marburg.csv'',
       WriteText ''marburg.csv'' ''id,age'',
       MsgOk ''get'' ''wrote marburg.csv''], Returned)"
proof -
  let ?entry = "[(''id'', ''GHL2023.D11.1D60.1''),
                 (''description'', ''Marburg 2023 Equatorial Guinea''),
                 (''url'', ''https://example.org/marburg.csv'')]"
  let ?url = "''https://example.org/marburg.csv''"
  let ?E = "example_env\<lparr>requests_get := \<lambda>url. Inr \<lparr>status_code = 200, res_text = ''id,age''\<rparr>\<rparr>"
  have entry: "map_of (OUTBREAKS example_env) ''marburg'' = Some ?entry"
    by (simp add: example_env_def example_registry_def)
  have entry': "map_of (OUTBREAKS ?E) ''marburg'' = Some ?entry"
    by (simp add: example_env_def example_registry_def)
  have url: "map_of ?entry ''url'' = Some ?url"
    by simp
  have r404: "requests_get example_env ?url = Inr \<lparr>status_code = 404, res_text = ''not found''\<rparr>"
    by (simp add: example_env_def)
  have r200: "requests_get ?E ?url = Inr \<lparr>status_code = 200, res_text = ''id,age''\<rparr>"
    by simp
  from get_writes_iff_200 [OF entry url r404] get_writes_iff_200 [OF entry' url r200]
  show ?thesis by simp
qed

text \<open>
  C10. For the subcommands lint, get and report: if the outbreak name is not a key of
  \<open>OUTBREAKS\<close>, the program reports the failure with a message that lists the keys of
  the registry and exits with status 1. The failure message is the only event, so
  nothing of the subcommand's action has happened.
\<close>

theorem unknown_outbreak_exits:
  assumes "command a \<in> {Some ''get'', Some ''lint'', Some ''report''}"
    and "outbreak a = Some ob"
    and "ob \<notin> set (keys (OUTBREAKS E))"
  shows "main E a =
           ([MsgFail ''cli'' (''outbreak not known, choose from: '' @ esc # ''[1m''
                              @ join '', '' (keys (OUTBREAKS E)) @ esc # ''[0m'')],
            SysExit 1) \<and>
         exit_status (snd (main E a)) = 1"
proof -
  from assms have "unknown_outbreak E a"
    by (auto simp: unknown_outbreak_def)
  then show ?thesis
    by (simp add: main_def abort_def)
qed

theorem unknown_outbreak_exits_witness:
  "command (GetCmd ''ebola'') \<in> {Some ''get'', Some ''lint'', Some ''report''} \<and>
   outbreak (GetCmd ''ebola'') = Some ''ebola'' \<and>
   ''ebola'' \<notin> set (keys (OUTBREAKS example_env)) \<and>
   main example_env (GetCmd ''ebola'') =
     ([MsgFail ''cli'' (''outbreak not known, choose from: '' @ esc # ''[1m''
                        @ ''marburg, mpox'' @ esc # ''[0m'')], SysExit 1) \<and>
   main example_env (LintCmd ''ebola'' None None None) =
     ([MsgFail ''cli'' (''outbreak not known, choose from: '' @ esc # ''[1m''
                        @ ''marburg, mpox'' @ esc # ''[0m'')], SysExit 1) \<and>
   main example_env (ReportCmd ''ebola'' None None None False) =
     ([MsgFail ''cli'' (''outbreak not known, choose from: '' @ esc # ''[1m''
                        @ ''marburg, mpox'' @ esc # ''[0m'')], SysExit 1)"
proof -
  have unknown: "''ebola'' \<notin> set (keys (OUTBREAKS example_env))"
    by (simp add: example_env_def example_registry_def keys_def)
  have names: "join '', '' (keys (OUTBREAKS example_env)) = ''marburg, mpox''"
    by (simp add: example_env_def example_registry_def keys_def)
  have c1: "command (GetCmd ''ebola'') \<in> {Some ''get'', Some ''lint'', Some ''report''}"
    by simp
  have c2: "command (LintCmd ''ebola'' None None None)
              \<in> {Some ''get'', Some ''lint'', Some ''report''}"
    by simp
  have c3: "command (ReportCmd ''ebola'' None None None False)
              \<in> {Some ''get'', Some ''lint'', Some ''report''}"
    by simp
  have o1: "outbreak (GetCmd ''ebola'') = Some ''ebola''" by simp
  have o2: "outbreak (LintCmd ''ebola'' None None None) = Some ''ebola''" by simp
  have o3: "outbreak (ReportCmd ''ebola'' None None None False) = Some ''ebola''" by simp
  from unknown names c1 o1
    unknown_outbreak_exits [OF c1 o1 unknown]
    unknown_outbreak_exits [OF c2 o2 unknown]
    unknown_outbreak_exits [OF c3 o3 unknown]
  show ?thesis by simp
qed

end
